theory Spec2Isabelle
  imports Complex_Main
begin

section \<open>Python values, exceptions and provider responses\<close>

text \<open>
  The wallet code passes JSON payloads and dict literals around untyped, so one type of
  Python values covers both. A dict is an association list read with \<open>map_of\<close>.
  Python floats are modelled by the reals: rounding, infinities and nan are outside
  the model, and arithmetic on floats is exact.
\<close>

datatype pyval =
    PNone
  | PBool bool
  | PInt int
  | PFloat real
  | PStr string
  | PList "pyval list"
  | PDict "(string \<times> pyval) list"

datatype py_error =
    NetworkError
  | DecodeError
  | TypeError
  | ValueError
  | AttributeError
  | UnboundLocalError
  | ZeroDivisionError
  | OverflowError

text \<open>
  One outbound HTTP call: either opening the session or the request raises (timeout,
  connection error), or a response arrives with a status code; \<open>response.json()\<close> then
  yields a value or raises (\<open>None\<close>).
\<close>

datatype http_result =
    Raised
  | Response nat "pyval option"

text \<open>\<open>len(x)\<close>: defined on str, list and dict, TypeError on every other JSON value.\<close>

definition py_len :: "pyval \<Rightarrow> py_error + nat" where
  "py_len v =
     (case v of
        PStr s \<Rightarrow> Inr (length s)
      | PList xs \<Rightarrow> Inr (length xs)
      | PDict d \<Rightarrow> Inr (length (remdups (map fst d)))
      | _ \<Rightarrow> Inl TypeError)"

text \<open>\<open>obj.get(k, dflt)\<close>: only a dict has the method; \<open>None.get\<close> is an AttributeError.\<close>

definition py_get :: "pyval \<Rightarrow> string \<Rightarrow> pyval \<Rightarrow> py_error + pyval" where
  "py_get obj k dflt =
     (case obj of
        PDict d \<Rightarrow> Inr (case map_of d k of None \<Rightarrow> dflt | Some v \<Rightarrow> v)
      | _ \<Rightarrow> Inl AttributeError)"

text \<open>
  \<open>float(v)\<close>. The first argument is the value of \<open>float\<close> on a str (\<open>None\<close> where it
  raises ValueError); Python's literal grammar is not part of this repository. An int
  converts when it rounds to a finite double, that is when its magnitude is below
  \<open>2^1024 - 2^970\<close>, the midpoint between the largest double and \<open>2^1024\<close>; from
  there on \<open>float\<close> raises OverflowError.
\<close>

definition float_int_bound :: int where
  "float_int_bound = 2 ^ 1024 - 2 ^ 970"

definition py_float :: "(string \<Rightarrow> real option) \<Rightarrow> pyval \<Rightarrow> py_error + real" where
  "py_float sf v =
     (case v of
        PNone \<Rightarrow> Inl TypeError
      | PBool b \<Rightarrow> Inr (if b then 1 else 0)
      | PInt i \<Rightarrow>
          (if \<bar>i\<bar> < float_int_bound then Inr (real_of_int i) else Inl OverflowError)
      | PFloat x \<Rightarrow> Inr x
      | PStr s \<Rightarrow> (case sf s of None \<Rightarrow> Inl ValueError | Some x \<Rightarrow> Inr x)
      | PList xs \<Rightarrow> Inl TypeError
      | PDict d \<Rightarrow> Inl TypeError)"

text \<open>\<open>a / b\<close> on floats raises on a zero divisor.\<close>

definition py_truediv :: "real \<Rightarrow> real \<Rightarrow> py_error + real" where
  "py_truediv a b = (if b = 0 then Inl ZeroDivisionError else Inr (a / b))"

text \<open>\<open>str(e)\<close> for the exceptions of the model (message texts of CPython 3.11).\<close>

definition str_exn :: "py_error \<Rightarrow> string" where
  "str_exn e =
     (case e of
        NetworkError \<Rightarrow> ''Cannot connect to host''
      | DecodeError \<Rightarrow> ''Attempt to decode JSON with unexpected mimetype''
      | TypeError \<Rightarrow> ''object has no len()''
      | ValueError \<Rightarrow> ''could not convert string to float''
      | AttributeError \<Rightarrow> ''object has no attribute get''
      | UnboundLocalError \<Rightarrow> ''cannot access local variable e where it is not associated with a value''
      | ZeroDivisionError \<Rightarrow> ''float division by zero''
      | OverflowError \<Rightarrow> ''int too large to convert to float'')"

text \<open>
  A reading of \<open>float\<close> on strings that accepts unsigned digit strings only; it serves
  as a concrete instance of the parameter of \<open>py_float\<close>.
\<close>

definition digit_val :: "char \<Rightarrow> nat option" where
  "digit_val c =
     (let code = (of_char c :: nat)
      in if 48 \<le> code \<and> code \<le> 57 then Some (code - 48) else None)"

fun digits_val :: "nat \<Rightarrow> string \<Rightarrow> nat option" where
  "digits_val acc [] = Some acc"
| "digits_val acc (c # cs) =
     (case digit_val c of None \<Rightarrow> None | Some d \<Rightarrow> digits_val (10 * acc + d) cs)"

definition digits_float :: "string \<Rightarrow> real option" where
  "digits_float s = (if s = [] then None else map_option real (digits_val 0 s))"

section \<open>The wallet aggregator (solana_integration.py)\<close>

record profit_state =
  total_profit :: real
  sessions :: int
  last_profit :: real
  timestamp :: string

record wallet_state =
  wallet_address :: string
  balance_history :: "pyval list"
  transactions :: pyval
  profit_tracking :: profit_state

text \<open>\<open>__init__\<close>; the second argument is the clock reading.\<close>

definition wallet_init :: "string \<Rightarrow> string \<Rightarrow> wallet_state" where
  "wallet_init addr now =
     \<lparr> wallet_address = addr,
       balance_history = [],
       transactions = PList [],
       profit_tracking =
         \<lparr> total_profit = 0, sessions = 0, last_profit = 0, timestamp = now \<rparr> \<rparr>"

definition profit_dict :: "profit_state \<Rightarrow> pyval" where
  "profit_dict pt =
     PDict [(''total_profit'', PFloat (total_profit pt)),
            (''sessions'', PInt (sessions pt)),
            (''last_profit'', PFloat (last_profit pt)),
            (''timestamp'', PStr (timestamp pt))]"

subsection \<open>Balance fetch with fallback\<close>

text \<open>
  \<open>_get_balance_fallback\<close>: the try body returns only on status 200 with a decodable
  body; an exception is logged and, like any other status, falls through to the
  pending placeholder.
\<close>

definition get_balance_fallback :: "wallet_state \<Rightarrow> http_result \<Rightarrow> string \<Rightarrow> py_error + pyval" where
  "get_balance_fallback s fallback now =
     (let pending =
            PDict [(''status'', PStr ''pending''),
                   (''wallet'', PStr (wallet_address s)),
                   (''message'', PStr ''Wallet monitoring active''),
                   (''timestamp'', PStr now)]
      in case fallback of
           Raised \<Rightarrow> Inr pending
         | Response st body \<Rightarrow>
             if st = 200 then
               (case body of
                  None \<Rightarrow> Inr pending
                | Some data \<Rightarrow>
                    Inr (PDict [(''status'', PStr ''success''),
                                (''wallet'', PStr (wallet_address s)),
                                (''data'', data),
                                (''timestamp'', PStr now)]))
             else Inr pending)"

text \<open>
  The try body of \<open>get_wallet_balance\<close>: \<open>Inl\<close> an exception raised inside it,
  \<open>Inr (Some v)\<close> a \<open>return v\<close>, \<open>Inr None\<close> when control leaves the body without a
  return (a status that is neither 200 nor 429).
\<close>

definition balance_try ::
  "wallet_state \<Rightarrow> http_result \<Rightarrow> http_result \<Rightarrow> string \<Rightarrow> py_error + pyval option" where
  "balance_try s primary fallback now =
     (case primary of
        Raised \<Rightarrow> Inl NetworkError
      | Response st body \<Rightarrow>
          if st = 200 then
            (case body of
               None \<Rightarrow> Inl DecodeError
             | Some data \<Rightarrow>
                 Inr (Some (PDict [(''status'', PStr ''success''),
                                   (''wallet'', PStr (wallet_address s)),
                                   (''balance'', data),
                                   (''timestamp'', PStr now)])))
          else if st = 429 then
            (case get_balance_fallback s fallback now of
               Inl e \<Rightarrow> Inl e
             | Inr v \<Rightarrow> Inr (Some v))
          else Inr None)"

text \<open>
  \<open>get_wallet_balance\<close>: the handler calls the fallback; when the try body ends without
  a return, so does the function, and Python returns \<open>None\<close>.
\<close>

definition get_wallet_balance ::
  "wallet_state \<Rightarrow> http_result \<Rightarrow> http_result \<Rightarrow> string \<Rightarrow> py_error + pyval" where
  "get_wallet_balance s primary fallback now =
     (case balance_try s primary fallback now of
        Inl e \<Rightarrow> get_balance_fallback s fallback now
      | Inr (Some v) \<Rightarrow> Inr v
      | Inr None \<Rightarrow> Inr PNone)"

subsection \<open>Token, transaction and NFT fetches\<close>

text \<open>
  The three single-provider fetches end with the same lines after the try statement:
  an error envelope built from \<open>str(e)\<close>. The argument is the binding of the local
  \<open>e\<close> at that point; an unbound local raises UnboundLocalError.
\<close>

definition error_envelope :: "py_error option \<Rightarrow> string \<Rightarrow> py_error + pyval" where
  "error_envelope e now =
     (case e of
        None \<Rightarrow> Inl UnboundLocalError
      | Some x \<Rightarrow>
          Inr (PDict [(''status'', PStr ''error''),
                      (''error'', PStr (str_exn x)),
                      (''timestamp'', PStr now)]))"

text \<open>
  The try body shared by the token and NFT fetches, with the payload key as argument.
  \<open>len\<close> of the payload is taken for the log line before the envelope is built.
\<close>

definition listing_try :: "string \<Rightarrow> http_result \<Rightarrow> string \<Rightarrow> py_error + pyval option" where
  "listing_try key resp now =
     (case resp of
        Raised \<Rightarrow> Inl NetworkError
      | Response st body \<Rightarrow>
          if st = 200 then
            (case body of
               None \<Rightarrow> Inl DecodeError
             | Some items \<Rightarrow>
                 (case py_len items of
                    Inl e \<Rightarrow> Inl e
                  | Inr n \<Rightarrow>
                      Inr (Some (PDict [(''status'', PStr ''success''),
                                        (key, items),
                                        (''count'', PInt (int n)),
                                        (''timestamp'', PStr now)]))))
          else Inr None)"

text \<open>
  \<open>get_token_balances\<close>. \<open>except Exception as e\<close> unbinds \<open>e\<close> when the handler ends,
  and without an exception \<open>e\<close> was never bound: both ways reach the last lines with
  \<open>e\<close> unbound.
\<close>

definition get_token_balances :: "wallet_state \<Rightarrow> http_result \<Rightarrow> string \<Rightarrow> py_error + pyval" where
  "get_token_balances s resp now =
     (case listing_try ''tokens'' resp now of
        Inr (Some env) \<Rightarrow> Inr env
      | Inr None \<Rightarrow> error_envelope None now
      | Inl exn \<Rightarrow> error_envelope None now)"

definition get_wallet_nfts :: "wallet_state \<Rightarrow> http_result \<Rightarrow> string \<Rightarrow> py_error + pyval" where
  "get_wallet_nfts s resp now =
     (case listing_try ''nfts'' resp now of
        Inr (Some env) \<Rightarrow> Inr env
      | Inr None \<Rightarrow> error_envelope None now
      | Inl exn \<Rightarrow> error_envelope None now)"

text \<open>
  \<open>get_transaction_history\<close> stores the payload in \<open>self.transactions\<close> before it takes
  its length, so the state changes even when \<open>len\<close> then raises.
\<close>

definition get_transaction_history ::
  "wallet_state \<Rightarrow> http_result \<Rightarrow> string \<Rightarrow> (py_error + pyval) \<times> wallet_state" where
  "get_transaction_history s resp now =
     (case resp of
        Raised \<Rightarrow> (error_envelope None now, s)
      | Response st body \<Rightarrow>
          if st = 200 then
            (case body of
               None \<Rightarrow> (error_envelope None now, s)
             | Some txs \<Rightarrow>
                 (let s' = s\<lparr>transactions := txs\<rparr>
                  in case py_len txs of
                       Inl e \<Rightarrow> (error_envelope None now, s')
                     | Inr n \<Rightarrow>
                         (Inr (PDict [(''status'', PStr ''success''),
                                      (''transactions'', txs),
                                      (''count'', PInt (int n)),
                                      (''timestamp'', PStr now)]), s')))
          else (error_envelope None now, s))"

subsection \<open>monitor_wallet\<close>

text \<open>The outcomes of the provider calls one operation may make, and its clock reading.\<close>

record provider_io =
  io_primary :: http_result
  io_fallback :: http_result
  io_tokens :: http_result
  io_transactions :: http_result
  io_nfts :: http_result
  io_now :: string

text \<open>
  \<open>v[:5]\<close>: a list or a str can be sliced (a str yields its characters when iterated);
  a dict cannot, and the expression raises (TypeError up to CPython 3.11).
\<close>

definition first_five :: "pyval \<Rightarrow> py_error + pyval list" where
  "first_five v =
     (case v of
        PList xs \<Rightarrow> Inr (take 5 xs)
      | PStr s \<Rightarrow> Inr (map (\<lambda>c. PStr [c]) (take 5 s))
      | _ \<Rightarrow> Inl TypeError)"

text \<open>
  The loop body of the profit detection: \<open>isinstance(tx, dict) and 'amount' in tx\<close>,
  then \<open>profit += float(tx.get('amount', 0))\<close> inside a bare \<open>except: pass\<close>.
\<close>

fun profit_loop :: "(string \<Rightarrow> real option) \<Rightarrow> real \<Rightarrow> pyval list \<Rightarrow> real" where
  "profit_loop sf profit [] = profit"
| "profit_loop sf profit (tx # txs) =
     (case tx of
        PDict d \<Rightarrow>
          (if map_of d ''amount'' \<noteq> None then
             (case py_float sf (case map_of d ''amount'' of None \<Rightarrow> PInt 0 | Some v \<Rightarrow> v) of
                Inl e \<Rightarrow> profit_loop sf profit txs
              | Inr x \<Rightarrow> profit_loop sf (profit + x) txs)
           else profit_loop sf profit txs)
      | _ \<Rightarrow> profit_loop sf profit txs)"

definition detect_profit :: "(string \<Rightarrow> real option) \<Rightarrow> pyval \<Rightarrow> py_error + real" where
  "detect_profit sf txenv =
     (case py_get txenv ''status'' PNone of
        Inl e \<Rightarrow> Inl e
      | Inr st \<Rightarrow>
          if st = PStr ''success'' then
            (case py_get txenv ''transactions'' (PList []) of
               Inl e \<Rightarrow> Inl e
             | Inr v \<Rightarrow>
                 (case first_five v of
                    Inl e \<Rightarrow> Inl e
                  | Inr txs \<Rightarrow> Inr (profit_loop sf 0 txs)))
          else Inr 0)"

text \<open>The four log lines after the state update read the three envelopes with \<open>.get\<close>.\<close>

definition monitor_log :: "pyval \<Rightarrow> pyval \<Rightarrow> pyval \<Rightarrow> py_error + unit" where
  "monitor_log balance tokens txenv =
     (case py_get balance ''status'' PNone of
        Inl e \<Rightarrow> Inl e
      | Inr b \<Rightarrow>
          (case py_get tokens ''count'' (PInt 0) of
             Inl e \<Rightarrow> Inl e
           | Inr t \<Rightarrow>
               (case py_get txenv ''count'' (PInt 0) of
                  Inl e \<Rightarrow> Inl e
                | Inr c \<Rightarrow> Inr ())))"

definition update_profit :: "real \<Rightarrow> string \<Rightarrow> profit_state \<Rightarrow> profit_state" where
  "update_profit profit now pt =
     pt\<lparr> last_profit := profit,
         total_profit := total_profit pt + profit,
         sessions := sessions pt + 1,
         timestamp := now \<rparr>"

text \<open>
  \<open>monitor_wallet\<close> returns the exception or the snapshot, and the state it leaves
  behind either way.
\<close>

definition monitor_wallet ::
  "(string \<Rightarrow> real option) \<Rightarrow> wallet_state \<Rightarrow> provider_io \<Rightarrow> (py_error + pyval) \<times> wallet_state" where
  "monitor_wallet sf s io =
     (case get_wallet_balance s (io_primary io) (io_fallback io) (io_now io) of
        Inl e \<Rightarrow> (Inl e, s)
      | Inr balance \<Rightarrow>
     (case get_token_balances s (io_tokens io) (io_now io) of
        Inl e \<Rightarrow> (Inl e, s)
      | Inr tokens \<Rightarrow>
     (case get_transaction_history s (io_transactions io) (io_now io) of
        (Inl e, s1) \<Rightarrow> (Inl e, s1)
      | (Inr txenv, s1) \<Rightarrow>
     (case detect_profit sf txenv of
        Inl e \<Rightarrow> (Inl e, s1)
      | Inr profit \<Rightarrow>
          (let s2 = s1\<lparr>profit_tracking := update_profit profit (io_now io) (profit_tracking s1)\<rparr>
           in case monitor_log balance tokens txenv of
                Inl e \<Rightarrow> (Inl e, s2)
              | Inr u \<Rightarrow>
                  (Inr (PDict [(''status'', PStr ''success''),
                               (''wallet'', PStr (wallet_address s2)),
                               (''balance'', balance),
                               (''tokens'', tokens),
                               (''transactions'', txenv),
                               (''profit_tracking'', profit_dict (profit_tracking s2)),
                               (''timestamp'', PStr (io_now io))]), s2))))))"

subsection \<open>track_profit, get_wallet_value, get_wallet_status\<close>

definition track_profit :: "wallet_state \<Rightarrow> string \<Rightarrow> py_error + pyval" where
  "track_profit s now =
     (let pt = profit_tracking s
      in case py_truediv (total_profit pt) (real_of_int (max 1 (sessions pt))) of
           Inl e \<Rightarrow> Inl e
         | Inr avg \<Rightarrow>
             Inr (PDict [(''status'', PStr ''success''),
                         (''profit_tracking'', profit_dict pt),
                         (''total_profit'', PFloat (total_profit pt)),
                         (''average_profit_per_session'', PFloat avg),
                         (''sessions'', PInt (sessions pt)),
                         (''timestamp'', PStr now)]))"

text \<open>
  \<open>get_wallet_value\<close>: the whole body is inside \<open>try\<close>; the handler turns any exception
  of the three fetches into an error envelope, where \<open>e\<close> is bound.
\<close>

definition value_try :: "wallet_state \<Rightarrow> provider_io \<Rightarrow> py_error + pyval" where
  "value_try s io =
     (case get_token_balances s (io_tokens io) (io_now io) of
        Inl e \<Rightarrow> Inl e
      | Inr tokens \<Rightarrow>
     (case get_wallet_nfts s (io_nfts io) (io_now io) of
        Inl e \<Rightarrow> Inl e
      | Inr nfts \<Rightarrow>
     (case get_wallet_balance s (io_primary io) (io_fallback io) (io_now io) of
        Inl e \<Rightarrow> Inl e
      | Inr balance \<Rightarrow>
     (case py_get nfts ''count'' (PInt 0) of
        Inl e \<Rightarrow> Inl e
      | Inr nft_count \<Rightarrow>
     (case py_get tokens ''count'' (PInt 0) of
        Inl e \<Rightarrow> Inl e
      | Inr token_count \<Rightarrow>
          Inr (PDict [(''status'', PStr ''success''),
                      (''wallet'', PStr (wallet_address s)),
                      (''value'',
                         PDict [(''sol_balance'', PFloat 0),
                                (''token_value'', PFloat 0),
                                (''nft_count'', nft_count),
                                (''total_usd_value'', PFloat 0),
                                (''timestamp'', PStr (io_now io))]),
                      (''timestamp'', PStr (io_now io))]))))))"

definition get_wallet_value :: "wallet_state \<Rightarrow> provider_io \<Rightarrow> py_error + pyval" where
  "get_wallet_value s io =
     (case value_try s io of
        Inl e \<Rightarrow> error_envelope (Some e) (io_now io)
      | Inr v \<Rightarrow> Inr v)"

definition get_wallet_status :: "wallet_state \<Rightarrow> string \<Rightarrow> py_error + pyval" where
  "get_wallet_status s now =
     (case py_len (transactions s) of
        Inl e \<Rightarrow> Inl e
      | Inr n \<Rightarrow>
          Inr (PDict [(''wallet_address'', PStr (wallet_address s)),
                      (''profit_tracking'', profit_dict (profit_tracking s)),
                      (''transaction_count'', PInt (int n)),
                      (''balance_history_size'', PInt (int (length (balance_history s)))),
                      (''status'', PStr ''active''),
                      (''timestamp'', PStr now)]))"

section \<open>The formula library (magick_engine.py)\<close>

subsection \<open>Sacred geometry\<close>

definition PHI :: real where
  "PHI = (1 + sqrt 5) / 2"

definition FIBONACCI :: "int list" where
  "FIBONACCI = [1, 1, 2, 3, 5, 8, 13, 21, 34, 55, 89, 144, 233, 377, 610, 987]"

text \<open>The loop of \<open>golden_ratio_levels\<close>, appending one level per table entry.\<close>

fun levels_loop :: "real \<Rightarrow> real list \<Rightarrow> int list \<Rightarrow> real list" where
  "levels_loop price levels [] = levels"
| "levels_loop price levels (fib # fibs) =
     levels_loop price (levels @ [price * PHI powr (real_of_int fib / 10)]) fibs"

definition golden_ratio_levels :: "real \<Rightarrow> real list" where
  "golden_ratio_levels price = levels_loop price [] FIBONACCI"

text \<open>\<open>np.mean\<close> and \<open>np.std\<close> (population standard deviation) of a non-empty segment.\<close>

definition np_mean :: "real list \<Rightarrow> real" where
  "np_mean xs = sum_list xs / real (length xs)"

definition np_std :: "real list \<Rightarrow> real" where
  "np_std xs = sqrt (sum_list (map (\<lambda>x. (x - np_mean xs)\<^sup>2) xs) / real (length xs))"

text \<open>
  \<open>range(0, len(data) - 19, 19)\<close>: the multiples of 19 below \<open>len(data) - 19\<close>; the
  range is empty when the stop is not positive, as the truncated difference makes it.
\<close>

definition segment_starts :: "nat \<Rightarrow> nat list" where
  "segment_starts n = filter (\<lambda>i. i mod 19 = 0) [0 ..< n - 19]"

definition fol_segments :: "real list \<Rightarrow> real list list" where
  "fol_segments data = map (\<lambda>i. take 19 (drop i data)) (segment_starts (length data))"

text \<open>
  One pass of the loop body on a segment. The quotient \<open>std / mean\<close> is a numpy
  division: on a zero mean it is infinite and does not raise, the harmony is minus
  infinity and \<open>max(0, harmony)\<close> adds 0.
\<close>

definition harmony_step :: "real \<Rightarrow> real list \<Rightarrow> real" where
  "harmony_step pattern_score segment =
     (let mean = np_mean segment; std = np_std segment
      in if std > 0 then
           (if mean = 0 then pattern_score + 0
            else pattern_score + max 0 (1 - std / mean))
         else pattern_score)"

definition flower_of_life_pattern :: "real list \<Rightarrow> py_error + pyval" where
  "flower_of_life_pattern data =
     (if length data < 6 then Inr (PDict [(''pattern'', PStr ''insufficient_data'')])
      else
        (let pattern_score = foldl harmony_step 0 (fol_segments data)
         in case py_truediv pattern_score
                   (max 1 ((real_of_int (int (length data) - 19)) / 19)) of
              Inl e \<Rightarrow> Inl e
            | Inr h \<Rightarrow>
                Inr (PDict [(''pattern'', PStr ''flower_of_life''),
                            (''harmony_score'', PFloat h),
                            (''interpretation'', PStr ''Sacred pattern alignment'')])))"

definition vesica_piscis_ratio :: "real \<Rightarrow> real \<Rightarrow> py_error + pyval" where
  "vesica_piscis_ratio value1 value2 =
     (if value1 = 0 \<or> value2 = 0 then Inr (PInt 0)
      else
        (case py_truediv value1 value2 of
           Inl e \<Rightarrow> Inl e
         | Inr ratio \<Rightarrow> Inr (PFloat \<bar>ratio - sqrt 3 / 2\<bar>)))"

subsection \<open>Hermetic principles\<close>

definition principle_correspondence :: "real \<Rightarrow> real \<Rightarrow> py_error + pyval" where
  "principle_correspondence macro micro =
     (case (if micro \<noteq> 0 then map_sum id PFloat (py_truediv macro micro) else Inr (PInt 0)) of
        Inl e \<Rightarrow> Inl e
      | Inr ratio \<Rightarrow>
          Inr (PDict [(''principle'', PStr ''correspondence''),
                      (''macro_level'', PFloat macro),
                      (''micro_level'', PFloat micro),
                      (''correspondence_ratio'', ratio),
                      (''interpretation'', PStr ''Pattern repeats across scales'')]))"

definition principle_vibration :: "real \<Rightarrow> py_error + pyval" where
  "principle_vibration frequency =
     (case (if frequency \<noteq> 0 then map_sum id PFloat (py_truediv 1 frequency) else Inr (PInt 0)) of
        Inl e \<Rightarrow> Inl e
      | Inr wavelength \<Rightarrow>
          Inr (PDict [(''principle'', PStr ''vibration''),
                      (''frequency'', PFloat frequency),
                      (''wavelength'', wavelength),
                      (''resonance'', PStr ''Align with market frequency''),
                      (''action'', PStr ''Trade with market rhythm, not against it'')]))"

definition polarity_result :: "pyval \<Rightarrow> pyval \<Rightarrow> bool \<Rightarrow> pyval" where
  "polarity_result bull_percent bear_percent over50 =
     PDict [(''principle'', PStr ''polarity''),
            (''bull_force'', bull_percent),
            (''bear_force'', bear_percent),
            (''balance_point'', PInt 50),
            (''market_state'', PStr (if over50 then ''bullish'' else ''bearish''))]"

definition principle_polarity :: "real \<Rightarrow> real \<Rightarrow> py_error + pyval" where
  "principle_polarity bull bear =
     (let total = bull + bear
      in if total = 0 then Inr (polarity_result (PInt 50) (PInt 50) ((50::int) > 50))
         else
           (case py_truediv bull total of
              Inl e \<Rightarrow> Inl e
            | Inr b \<Rightarrow>
                (case py_truediv bear total of
                   Inl e \<Rightarrow> Inl e
                 | Inr r \<Rightarrow>
                     Inr (polarity_result (PFloat (b * 100)) (PFloat (r * 100)) (b * 100 > 50)))))"

definition gender_result :: "pyval \<Rightarrow> pyval \<Rightarrow> bool \<Rightarrow> pyval" where
  "gender_result m_percent f_percent over50 =
     PDict [(''principle'', PStr ''gender''),
            (''masculine_active'', m_percent),
            (''feminine_receptive'', f_percent),
            (''balance'', PStr ''Optimal balance is 50/50''),
            (''market_state'', PStr (if over50 then ''active'' else ''receptive''))]"

definition principle_gender :: "real \<Rightarrow> real \<Rightarrow> py_error + pyval" where
  "principle_gender masculine feminine =
     (let total = masculine + feminine
      in if total = 0 then Inr (gender_result (PInt 50) (PInt 50) ((50::int) > 50))
         else
           (case py_truediv masculine total of
              Inl e \<Rightarrow> Inl e
            | Inr m \<Rightarrow>
                (case py_truediv feminine total of
                   Inl e \<Rightarrow> Inl e
                 | Inr f \<Rightarrow>
                     Inr (gender_result (PFloat (m * 100)) (PFloat (f * 100)) (m * 100 > 50)))))"

text \<open>\<open>np.diff\<close>: the differences of neighbouring prices.\<close>

definition np_diff :: "real list \<Rightarrow> real list" where
  "np_diff xs = map (\<lambda>(a, b). b - a) (zip xs (tl xs))"

definition principle_rhythm :: "real list \<Rightarrow> py_error + pyval" where
  "principle_rhythm prices =
     (if length prices < 2 then
        Inr (PDict [(''principle'', PStr ''rhythm''), (''insufficient_data'', PBool True)])
      else
        (let changes = np_diff prices;
             ups = length (filter (\<lambda>c. c > 0) changes);
             downs = length (filter (\<lambda>c. c < 0) changes)
         in case py_truediv (real ups) (real (max 1 downs)) of
              Inl e \<Rightarrow> Inl e
            | Inr r \<Rightarrow>
                Inr (PDict [(''principle'', PStr ''rhythm''),
                            (''up_movements'', PInt (int ups)),
                            (''down_movements'', PInt (int downs)),
                            (''cycle_ratio'', PFloat r),
                            (''rhythm'', PStr ''Market oscillates between up and down'')])))"

subsection \<open>Quantum formulas and the profit calculation\<close>

definition superposition :: "real \<Rightarrow> real \<Rightarrow> py_error + pyval" where
  "superposition option_a option_b =
     (case (if option_a + option_b > 0 then py_truediv option_a (option_a + option_b)
            else Inr (1 / 2)) of
        Inl e \<Rightarrow> Inl e
      | Inr pa \<Rightarrow>
          (case (if option_a + option_b > 0 then py_truediv option_b (option_a + option_b)
                 else Inr (1 / 2)) of
             Inl e \<Rightarrow> Inl e
           | Inr pb \<Rightarrow>
               Inr (PDict [(''principle'', PStr ''superposition''),
                           (''option_a'', PFloat option_a),
                           (''option_b'', PFloat option_b),
                           (''probability_a'', PFloat pa),
                           (''probability_b'', PFloat pb),
                           (''interpretation'',
                              PStr ''Market exists in multiple states until observation'')])))"

text \<open>\<open>entanglement\<close> divides by \<open>max(asset1_price, asset2_price)\<close> with no test before.\<close>

definition entanglement :: "real \<Rightarrow> real \<Rightarrow> py_error + pyval" where
  "entanglement asset1_price asset2_price =
     (case py_truediv \<bar>asset1_price - asset2_price\<bar> (max asset1_price asset2_price) of
        Inl e \<Rightarrow> Inl e
      | Inr q \<Rightarrow>
          Inr (PDict [(''principle'', PStr ''entanglement''),
                      (''asset1'', PFloat asset1_price),
                      (''asset2'', PFloat asset2_price),
                      (''correlation'', PFloat (1 - q)),
                      (''interpretation'',
                         PStr ''Assets are entangled - movements affect each other'')]))"

record engine_state =
  trades :: "pyval list"
  profits :: "real list"

text \<open>
  \<open>calculate_magick_profit\<close>: the return on investment divides by the entry price
  before the profit is appended to \<open>self.profits\<close>.
\<close>

definition calculate_magick_profit ::
  "engine_state \<Rightarrow> real \<Rightarrow> real \<Rightarrow> real \<Rightarrow> string \<Rightarrow> (py_error + pyval) \<times> engine_state" where
  "calculate_magick_profit g entry exit amount now =
     (let profit = (exit - entry) * amount
      in case py_truediv (exit - entry) entry of
           Inl e \<Rightarrow> (Inl e, g)
         | Inr q \<Rightarrow>
             (let roi = q * 100;
                  magick_multiplier = 11 / 10;
                  magick_profit = profit * magick_multiplier;
                  g' = g\<lparr>profits := profits g @ [magick_profit]\<rparr>
              in (Inr (PDict [(''entry_price'', PFloat entry),
                              (''exit_price'', PFloat exit),
                              (''amount'', PFloat amount),
                              (''profit'', PFloat profit),
                              (''roi_percent'', PFloat roi),
                              (''magick_multiplier'', PFloat magick_multiplier),
                              (''magick_profit'', PFloat magick_profit),
                              (''total_profits'', PFloat (sum_list (profits g'))),
                              (''timestamp'', PStr now)]), g')))"

section \<open>Auxiliary notions for the properties\<close>

text \<open>
  The amount a transaction record contributes, in the words of the specification: the
  entry is a structured record, it has an \<open>amount\<close> field, and the field coerces to a
  float. Every other entry contributes nothing.
\<close>

definition coercible_amount :: "(string \<Rightarrow> real option) \<Rightarrow> pyval \<Rightarrow> real option" where
  "coercible_amount sf tx =
     (case tx of
        PDict d \<Rightarrow>
          (case map_of d ''amount'' of
             None \<Rightarrow> None
           | Some v \<Rightarrow> (case py_float sf v of Inl e \<Rightarrow> None | Inr x \<Rightarrow> Some x))
      | _ \<Rightarrow> None)"

definition coercible_amounts :: "(string \<Rightarrow> real option) \<Rightarrow> pyval list \<Rightarrow> real list" where
  "coercible_amounts sf txs = List.map_filter (coercible_amount sf) txs"

text \<open>
  Consecutive \<open>monitor_wallet\<close> calls on the shared instance, one per element of the
  list; a call that raises leaves the state it reached to the next call.
\<close>

fun monitor_run :: "(string \<Rightarrow> real option) \<Rightarrow> wallet_state \<Rightarrow> provider_io list \<Rightarrow> wallet_state" where
  "monitor_run sf s [] = s"
| "monitor_run sf s (io # ios) = monitor_run sf (snd (monitor_wallet sf s io)) ios"

text \<open>
  How often a run of \<open>flower_of_life_pattern\<close> reaches the test \<open>std > 0\<close> and finds it
  false, skipping the division: once for every examined segment of zero deviation.
\<close>

definition std_guard_skips :: "real list \<Rightarrow> nat" where
  "std_guard_skips data = length (filter (\<lambda>segment. \<not> np_std segment > 0) (fol_segments data))"

text \<open>Sample provider outcomes.\<close>

definition example_txs :: "pyval list" where
  "example_txs =
     [PDict [(''amount'', PInt 3)],
      PDict [(''amount'', PStr ''bad'')],
      PDict [(''amount'', PInt (- 1))],
      PDict [(''signature'', PStr ''5xk'')],
      PDict [(''amount'', PInt 2)]]"

definition io_all_ok :: provider_io where
  "io_all_ok =
     \<lparr> io_primary = Response 200 (Some (PDict [(''nativeBalance'', PInt 5)])),
       io_fallback = Raised,
       io_tokens = Response 200 (Some (PList [])),
       io_transactions = Response 200 (Some (PList example_txs)),
       io_nfts = Response 200 (Some (PList [PStr ''nft1'', PStr ''nft2''])),
       io_now = ''t1'' \<rparr>"

definition io_all_raise :: provider_io where
  "io_all_raise =
     \<lparr> io_primary = Raised,
       io_fallback = Raised,
       io_tokens = Raised,
       io_transactions = Raised,
       io_nfts = Raised,
       io_now = ''t1'' \<rparr>"

text \<open>A transaction provider that answers 200 with a JSON object around the records.\<close>

definition io_tx_object :: provider_io where
  "io_tx_object =
     io_all_ok\<lparr>io_transactions := Response 200 (Some (PDict [(''data'', PList example_txs)]))\<rparr>"

definition io_tokens_down :: provider_io where
  "io_tokens_down = io_all_ok\<lparr>io_tokens := Response 503 None\<rparr>"

definition io_nfts_down :: provider_io where
  "io_nfts_down = io_all_ok\<lparr>io_nfts := Response 503 None\<rparr>"

section \<open>Shared lemmas\<close>

lemma get_balance_fallback_returns:
  "\<exists>v. get_balance_fallback s fb now = Inr v"
  by (simp add: get_balance_fallback_def Let_def split: http_result.split option.split)

lemma get_wallet_balance_returns:
  "\<exists>v. get_wallet_balance s p fb now = Inr v"
  using get_balance_fallback_returns [of s fb now]
  by (auto simp add: get_wallet_balance_def balance_try_def
           split: http_result.split option.split sum.split)

lemma profit_loop_sum:
  "profit_loop sf acc txs = acc + sum_list (coercible_amounts sf txs)"
proof (induction txs arbitrary: acc)
  case Nil
  show ?case by (simp add: coercible_amounts_def)
next
  case (Cons tx txs)
  show ?case
    by (cases tx)
       (auto simp add: Cons.IH coercible_amounts_def coercible_amount_def
             split: option.split sum.split)
qed

lemma py_float_int_overflow:
  "py_float sf (PInt (2 ^ 1024)) = Inl OverflowError
   \<and> py_float sf (PInt (- (2 ^ 1024))) = Inl OverflowError
   \<and> py_float sf (PInt (2 ^ 1024 - 2 ^ 970 - 1)) = Inr (2 ^ 1024 - 2 ^ 970 - 1)"
  by (simp add: py_float_def float_int_bound_def)

lemma tx_success:
  "get_transaction_history s (Response 200 (Some (PList txs))) now =
     (Inr (PDict [(''status'', PStr ''success''), (''transactions'', PList txs),
                  (''count'', PInt (int (length txs))), (''timestamp'', PStr now)]),
      s\<lparr>transactions := PList txs\<rparr>)"
  by (simp add: get_transaction_history_def py_len_def)

lemma detect_profit_list:
  "detect_profit sf (PDict [(''status'', PStr ''success''), (''transactions'', PList txs),
                            (''count'', c), (''timestamp'', t)])
     = Inr (sum_list (coercible_amounts sf (take 5 txs)))"
  by (simp add: detect_profit_def py_get_def first_five_def profit_loop_sum)

lemma monitor_tokens_down:
  "monitor_wallet sf s io_tokens_down = (Inl UnboundLocalError, s)"
  by (simp add: monitor_wallet_def get_wallet_balance_def balance_try_def io_tokens_down_def
        io_all_ok_def get_token_balances_def listing_try_def error_envelope_def)

lemma levels_loop_map:
  "levels_loop price levels fibs
     = levels @ map (\<lambda>fib. price * PHI powr (real_of_int fib / 10)) fibs"
  by (induction fibs arbitrary: levels) simp_all

lemma PHI_pos: "0 < PHI"
proof -
  have "0 < 1 + sqrt 5" by (simp add: add_pos_nonneg)
  then show ?thesis by (simp add: PHI_def)
qed

lemma get_balance_fallback_frame:
  "get_balance_fallback (s\<lparr>balance_history := h\<rparr>) fb now = get_balance_fallback s fb now"
  by (simp add: get_balance_fallback_def Let_def split: http_result.split option.split)

lemma balance_try_frame:
  "balance_try (s\<lparr>balance_history := h\<rparr>) p fb now = balance_try s p fb now"
  by (simp add: balance_try_def get_balance_fallback_frame split: http_result.split option.split)

lemma get_wallet_balance_frame:
  "get_wallet_balance (s\<lparr>balance_history := h\<rparr>) p fb now = get_wallet_balance s p fb now"
  by (simp add: get_wallet_balance_def balance_try_frame get_balance_fallback_frame
           split: sum.split option.split)

lemma get_token_balances_frame:
  "get_token_balances (s\<lparr>balance_history := h\<rparr>) resp now = get_token_balances s resp now"
  by (simp add: get_token_balances_def)

lemma get_wallet_nfts_frame:
  "get_wallet_nfts (s\<lparr>balance_history := h\<rparr>) resp now = get_wallet_nfts s resp now"
  by (simp add: get_wallet_nfts_def)

lemma get_transaction_history_frame:
  "get_transaction_history (s\<lparr>balance_history := h\<rparr>) resp now
     = (fst (get_transaction_history s resp now),
        (snd (get_transaction_history s resp now))\<lparr>balance_history := h\<rparr>)"
  by (simp add: get_transaction_history_def Let_def
           split: http_result.split option.split sum.split)

lemma get_transaction_history_keeps:
  "balance_history (snd (get_transaction_history s resp now)) = balance_history s"
  by (simp add: get_transaction_history_def Let_def
           split: http_result.split option.split sum.split)

lemma monitor_wallet_frame:
  "monitor_wallet sf (s\<lparr>balance_history := h\<rparr>) io
     = (fst (monitor_wallet sf s io), (snd (monitor_wallet sf s io))\<lparr>balance_history := h\<rparr>)"
proof -
  obtain r s1 where g: "get_transaction_history s (io_transactions io) (io_now io) = (r, s1)"
    by (cases "get_transaction_history s (io_transactions io) (io_now io)")
  have g': "get_transaction_history (s\<lparr>balance_history := h\<rparr>) (io_transactions io) (io_now io)
              = (r, s1\<lparr>balance_history := h\<rparr>)"
    using get_transaction_history_frame [where s = s and h = h and resp = "io_transactions io"
        and now = "io_now io"] g by simp
  show ?thesis
    by (simp add: monitor_wallet_def get_wallet_balance_frame get_token_balances_frame g g' Let_def
             split: sum.split)
qed

lemma monitor_wallet_keeps:
  "balance_history (snd (monitor_wallet sf s io)) = balance_history s"
proof -
  obtain r s1 where g: "get_transaction_history s (io_transactions io) (io_now io) = (r, s1)"
    by (cases "get_transaction_history s (io_transactions io) (io_now io)")
  have "balance_history s1 = balance_history s"
    using get_transaction_history_keeps [of s "io_transactions io" "io_now io"] g by simp
  then show ?thesis
    by (simp add: monitor_wallet_def g Let_def split: sum.split)
qed

text \<open>The formulas that test their divisor first return for every input.\<close>

lemma guarded_formulas_return:
  "(\<exists>v. vesica_piscis_ratio a b = Inr v)
   \<and> (\<exists>v. principle_correspondence a b = Inr v)
   \<and> (\<exists>v. principle_vibration a = Inr v)
   \<and> (\<exists>v. principle_polarity a b = Inr v)
   \<and> (\<exists>v. principle_gender a b = Inr v)
   \<and> (\<exists>v. superposition a b = Inr v)"
  by (simp add: vesica_piscis_ratio_def principle_correspondence_def principle_vibration_def
        principle_polarity_def principle_gender_def superposition_def py_truediv_def Let_def)

section \<open>The wallet aggregator: properties\<close>

text \<open>
  C1. The specification promises that \<open>monitor_wallet\<close> returns a well-formed snapshot
  with status \<open>success\<close> for every outcome of its fetches, also when all of them fail.
  On the code, when every provider call raises, the balance fetch degrades to its
  pending placeholder, but \<open>get_token_balances\<close> reaches \<open>str(e)\<close> with \<open>e\<close> unbound:
  \<open>monitor_wallet\<close> ends with UnboundLocalError and leaves the state as it was.
\<close>

theorem monitor_wallet_raises_when_all_fetches_fail:
  "monitor_wallet sf s
     \<lparr> io_primary = Raised, io_fallback = Raised, io_tokens = Raised,
       io_transactions = Raised, io_nfts = Raised, io_now = now \<rparr>
   = (Inl UnboundLocalError, s)"
  by (simp add: monitor_wallet_def get_wallet_balance_def balance_try_def
        get_balance_fallback_def get_token_balances_def listing_try_def error_envelope_def)

text \<open>
  C2. The specification promises that \<open>n\<close> consecutive \<open>monitor_wallet\<close> calls raise the
  session counter by \<open>n\<close> whatever the providers do. On the code, while the token
  provider answers with status 503 every call raises before the counter is touched:
  after any number of such calls the counter has its starting value.
\<close>

theorem monitor_run_sessions_stuck:
  "sessions (profit_tracking (monitor_run sf s (replicate n io_tokens_down)))
     = sessions (profit_tracking s)"
  by (induction n) (simp_all add: monitor_tokens_down)

text \<open>
  C3, as stated: whenever the transaction fetch succeeds, \<open>monitor_wallet\<close> stores the
  sum of the coercible amounts of the first five records. On the code, a provider that
  answers 200 with a JSON object makes the fetch succeed, but \<open>[:5]\<close> on the object
  raises: \<open>monitor_wallet\<close> ends with the exception and the profit-tracking state is
  the one before the call.
\<close>

theorem monitor_wallet_object_payload_counterexample:
  "fst (get_transaction_history (wallet_init ''w'' ''t0'') (io_transactions io_tx_object)
          (io_now io_tx_object))
     = Inr (PDict [(''status'', PStr ''success''),
                   (''transactions'', PDict [(''data'', PList example_txs)]),
                   (''count'', PInt 1),
                   (''timestamp'', PStr ''t1'')])
   \<and> fst (monitor_wallet digits_float (wallet_init ''w'' ''t0'') io_tx_object) = Inl TypeError
   \<and> profit_tracking (snd (monitor_wallet digits_float (wallet_init ''w'' ''t0'') io_tx_object))
     = profit_tracking (wallet_init ''w'' ''t0'')"
  by (simp add: monitor_wallet_def wallet_init_def io_tx_object_def io_all_ok_def
        get_wallet_balance_def balance_try_def get_token_balances_def listing_try_def py_len_def
        get_transaction_history_def detect_profit_def py_get_def first_five_def Let_def)

text \<open>
  C3, amended: when the token fetch has returned and the transaction fetch succeeds
  with a JSON list as payload, the profit delta that \<open>monitor_wallet\<close> stores is the
  sum of the float-coercible \<open>amount\<close> fields of the first five entries of the list;
  entries that are no record, have no \<open>amount\<close> or do not coerce are skipped. For the
  list \<open>[{amount: 3}, {amount: "bad"}, {amount: -1}, {signature: ...}, {amount: 2}]\<close>
  the delta is 4, given that \<open>float("bad")\<close> raises.
\<close>

theorem monitor_wallet_profit_delta:
  "(get_token_balances s (io_tokens io) (io_now io) = Inr tokens \<and>
    io_transactions io = Response 200 (Some (PList txs))
      \<longrightarrow> last_profit (profit_tracking (snd (monitor_wallet sf s io)))
            = sum_list (coercible_amounts sf (take 5 txs)))
   \<and> (sf ''bad'' = None
      \<longrightarrow> last_profit (profit_tracking (snd (monitor_wallet sf s io_all_ok))) = 4)"
proof (intro conjI impI)
  assume h: "get_token_balances s (io_tokens io) (io_now io) = Inr tokens \<and>
    io_transactions io = Response 200 (Some (PList txs))"
  obtain b where b: "get_wallet_balance s (io_primary io) (io_fallback io) (io_now io) = Inr b"
    using get_wallet_balance_returns by blast
  show "last_profit (profit_tracking (snd (monitor_wallet sf s io)))
            = sum_list (coercible_amounts sf (take 5 txs))"
    using h b
    by (simp add: monitor_wallet_def tx_success detect_profit_list Let_def update_profit_def
             split: sum.split)
next
  assume bad: "sf ''bad'' = None"
  obtain b where b: "get_wallet_balance s (io_primary io_all_ok) (io_fallback io_all_ok)
                       (io_now io_all_ok) = Inr b"
    using get_wallet_balance_returns by blast
  have tok: "\<exists>t. get_token_balances s (io_tokens io_all_ok) (io_now io_all_ok) = Inr t"
    by (simp add: io_all_ok_def get_token_balances_def listing_try_def py_len_def)
  have tx: "io_transactions io_all_ok = Response 200 (Some (PList example_txs))"
    by (simp add: io_all_ok_def)
  have "sum_list (coercible_amounts sf (take 5 example_txs)) = 4"
    using bad
    by (simp add: example_txs_def coercible_amounts_def coercible_amount_def py_float_def
          float_int_bound_def)
  then show "last_profit (profit_tracking (snd (monitor_wallet sf s io_all_ok))) = 4"
    using b tok tx
    by (auto simp add: monitor_wallet_def tx_success detect_profit_list Let_def update_profit_def
             split: sum.split)
qed

theorem monitor_wallet_profit_delta_witness:
  "get_token_balances (wallet_init ''w'' ''t0'') (io_tokens io_all_ok) (io_now io_all_ok)
     = Inr (PDict [(''status'', PStr ''success''), (''tokens'', PList []),
                   (''count'', PInt 0), (''timestamp'', PStr ''t1'')])
   \<and> io_transactions io_all_ok = Response 200 (Some (PList example_txs))
   \<and> digits_float ''bad'' = None
   \<and> sum_list (coercible_amounts digits_float (take 5 example_txs)) = 4
   \<and> last_profit (profit_tracking
        (snd (monitor_wallet digits_float (wallet_init ''w'' ''t0'') io_all_ok))) = 4"
proof -
  have tok: "get_token_balances (wallet_init ''w'' ''t0'') (io_tokens io_all_ok) (io_now io_all_ok)
     = Inr (PDict [(''status'', PStr ''success''), (''tokens'', PList []),
                   (''count'', PInt 0), (''timestamp'', PStr ''t1'')])"
    by (simp add: io_all_ok_def get_token_balances_def listing_try_def py_len_def)
  have tx: "io_transactions io_all_ok = Response 200 (Some (PList example_txs))"
    by (simp add: io_all_ok_def)
  have bad: "digits_float ''bad'' = None"
    by (simp add: digits_float_def digit_val_def)
  show ?thesis
    using monitor_wallet_profit_delta [where s = "wallet_init ''w'' ''t0''" and io = io_all_ok
        and txs = example_txs and sf = digits_float
        and tokens = "PDict [(''status'', PStr ''success''), (''tokens'', PList []),
                   (''count'', PInt 0), (''timestamp'', PStr ''t1'')]"] tok tx bad
    by simp
qed

text \<open>
  C4. The specification promises that the balance fetch returns an envelope for every
  outcome of the provider calls. On the code, a primary response whose status is
  neither 200 nor 429 (here 500) leaves the try body without a return: no fallback is
  tried and \<open>get_wallet_balance\<close> returns \<open>None\<close>, which is no envelope.
\<close>

theorem get_wallet_balance_other_status_returns_none:
  "get_wallet_balance s (Response 500 body) fallback now = Inr PNone"
  by (simp add: get_wallet_balance_def balance_try_def)

text \<open>
  C8. The specification promises that \<open>get_wallet_value\<close> returns a value summary with
  zero monetary fields and an NFT count that defaults to zero when the NFT fetch fails.
  On the code, when the NFT provider answers with status 503 while the other providers
  succeed, \<open>get_wallet_nfts\<close> raises UnboundLocalError and the handler of
  \<open>get_wallet_value\<close> returns an error envelope that holds no value summary at all.
\<close>

theorem get_wallet_value_nft_failure:
  "get_wallet_value s io_nfts_down =
     Inr (PDict [(''status'', PStr ''error''),
                 (''error'', PStr (str_exn UnboundLocalError)),
                 (''timestamp'', PStr ''t1'')])"
  by (simp add: get_wallet_value_def value_try_def io_nfts_down_def io_all_ok_def
        get_token_balances_def get_wallet_nfts_def listing_try_def error_envelope_def py_len_def)

text \<open>
  C9, as stated: the balance history list is appended to by the balance-fetch
  operations. On the code nothing appends to it: after a \<open>monitor_wallet\<close> call on a
  fresh instance whose balance fetch succeeds the list is still empty, and
  \<open>get_wallet_status\<close> reports size 0.
\<close>

theorem balance_history_counterexample:
  "balance_history (snd (monitor_wallet digits_float (wallet_init ''w'' ''t0'') io_all_ok)) = []
   \<and> get_wallet_status (snd (monitor_wallet digits_float (wallet_init ''w'' ''t0'') io_all_ok)) ''t2''
       = Inr (PDict [(''wallet_address'', PStr ''w''),
                     (''profit_tracking'',
                        PDict [(''total_profit'', PFloat 4), (''sessions'', PInt 1),
                               (''last_profit'', PFloat 4), (''timestamp'', PStr ''t1'')]),
                     (''transaction_count'', PInt 5),
                     (''balance_history_size'', PInt 0),
                     (''status'', PStr ''active''),
                     (''timestamp'', PStr ''t2'')])"
  by (simp add: monitor_wallet_def wallet_init_def io_all_ok_def get_wallet_balance_def
        balance_try_def get_token_balances_def listing_try_def py_len_def
        get_transaction_history_def detect_profit_def py_get_def first_five_def example_txs_def
        py_float_def float_int_bound_def digits_float_def digit_val_def update_profit_def
        monitor_log_def get_wallet_status_def profit_dict_def Let_def)

text \<open>
  C9, amended: the balance history list is created empty and no operation appends to
  it or changes it; no operation's result depends on its contents (replacing the list
  by any other changes no result and is carried through to the state after), and only
  its length is reported, by \<open>get_wallet_status\<close>: the field \<open>balance_history_size\<close>
  of every status it returns is the length of the list, and two lists of equal length
  give the same status.
\<close>

theorem balance_history_write_only:
  "balance_history (wallet_init addr now0) = []
   \<and> get_balance_fallback (s\<lparr>balance_history := h\<rparr>) fb now = get_balance_fallback s fb now
   \<and> get_wallet_balance (s\<lparr>balance_history := h\<rparr>) p fb now = get_wallet_balance s p fb now
   \<and> get_token_balances (s\<lparr>balance_history := h\<rparr>) resp now = get_token_balances s resp now
   \<and> get_wallet_nfts (s\<lparr>balance_history := h\<rparr>) resp now = get_wallet_nfts s resp now
   \<and> track_profit (s\<lparr>balance_history := h\<rparr>) now = track_profit s now
   \<and> get_wallet_value (s\<lparr>balance_history := h\<rparr>) io = get_wallet_value s io
   \<and> get_transaction_history (s\<lparr>balance_history := h\<rparr>) resp now
       = (fst (get_transaction_history s resp now),
          (snd (get_transaction_history s resp now))\<lparr>balance_history := h\<rparr>)
   \<and> monitor_wallet sf (s\<lparr>balance_history := h\<rparr>) io
       = (fst (monitor_wallet sf s io), (snd (monitor_wallet sf s io))\<lparr>balance_history := h\<rparr>)
   \<and> balance_history (snd (get_transaction_history s resp now)) = balance_history s
   \<and> balance_history (snd (monitor_wallet sf s io)) = balance_history s
   \<and> (get_wallet_status s now = Inr r \<longrightarrow>
        py_get r ''balance_history_size'' PNone
          = Inr (PInt (int (length (balance_history s)))))
   \<and> (length h = length h' \<longrightarrow>
        get_wallet_status (s\<lparr>balance_history := h\<rparr>) now
          = get_wallet_status (s\<lparr>balance_history := h'\<rparr>) now)"
proof -
  have a: "balance_history (wallet_init addr now0) = []"
    by (simp add: wallet_init_def)
  have b: "get_balance_fallback (s\<lparr>balance_history := h\<rparr>) fb now = get_balance_fallback s fb now"
    by (rule get_balance_fallback_frame)
  have c: "track_profit (s\<lparr>balance_history := h\<rparr>) now = track_profit s now"
    by (simp add: track_profit_def)
  have d: "get_wallet_value (s\<lparr>balance_history := h\<rparr>) io = get_wallet_value s io"
    by (simp add: get_wallet_value_def value_try_def get_wallet_balance_frame
          get_token_balances_frame get_wallet_nfts_frame split: sum.split)
  have e: "length h = length h' \<longrightarrow>
        get_wallet_status (s\<lparr>balance_history := h\<rparr>) now
          = get_wallet_status (s\<lparr>balance_history := h'\<rparr>) now"
    by (simp add: get_wallet_status_def split: sum.split)
  have f: "get_wallet_status s now = Inr r \<longrightarrow>
        py_get r ''balance_history_size'' PNone
          = Inr (PInt (int (length (balance_history s))))"
    by (auto simp add: get_wallet_status_def py_get_def split: sum.splits)
  show ?thesis
    by (intro conjI a b c d e f get_wallet_balance_frame get_token_balances_frame
          get_wallet_nfts_frame get_transaction_history_frame monitor_wallet_frame
          get_transaction_history_keeps monitor_wallet_keeps)
qed

theorem balance_history_write_only_witness:
  "length [PInt 1] = length [PStr ''x'']
   \<and> get_wallet_status ((wallet_init ''w'' ''t0'')\<lparr>balance_history := [PInt 1]\<rparr>) ''t1''
       = get_wallet_status ((wallet_init ''w'' ''t0'')\<lparr>balance_history := [PStr ''x'']\<rparr>) ''t1''
   \<and> get_wallet_status ((wallet_init ''w'' ''t0'')\<lparr>balance_history := [PInt 7, PInt 8]\<rparr>) ''t1''
       = Inr (PDict [(''wallet_address'', PStr ''w''),
                     (''profit_tracking'',
                        PDict [(''total_profit'', PFloat 0), (''sessions'', PInt 0),
                               (''last_profit'', PFloat 0), (''timestamp'', PStr ''t0'')]),
                     (''transaction_count'', PInt 0),
                     (''balance_history_size'', PInt 2),
                     (''status'', PStr ''active''),
                     (''timestamp'', PStr ''t1'')])
   \<and> py_get (PDict [(''wallet_address'', PStr ''w''),
                     (''profit_tracking'',
                        PDict [(''total_profit'', PFloat 0), (''sessions'', PInt 0),
                               (''last_profit'', PFloat 0), (''timestamp'', PStr ''t0'')]),
                     (''transaction_count'', PInt 0),
                     (''balance_history_size'', PInt 2),
                     (''status'', PStr ''active''),
                     (''timestamp'', PStr ''t1'')]) ''balance_history_size'' PNone
       = Inr (PInt 2)"
proof -
  have st: "get_wallet_status ((wallet_init ''w'' ''t0'')\<lparr>balance_history := [PInt 7, PInt 8]\<rparr>) ''t1''
       = Inr (PDict [(''wallet_address'', PStr ''w''),
                     (''profit_tracking'',
                        PDict [(''total_profit'', PFloat 0), (''sessions'', PInt 0),
                               (''last_profit'', PFloat 0), (''timestamp'', PStr ''t0'')]),
                     (''transaction_count'', PInt 0),
                     (''balance_history_size'', PInt 2),
                     (''status'', PStr ''active''),
                     (''timestamp'', PStr ''t1'')])"
    by (simp add: get_wallet_status_def wallet_init_def py_len_def profit_dict_def)
  have eq: "length [PInt 1] = length [PStr ''x'']
   \<and> get_wallet_status ((wallet_init ''w'' ''t0'')\<lparr>balance_history := [PInt 1]\<rparr>) ''t1''
       = get_wallet_status ((wallet_init ''w'' ''t0'')\<lparr>balance_history := [PStr ''x'']\<rparr>) ''t1''"
    using balance_history_write_only [where s = "wallet_init ''w'' ''t0''" and h = "[PInt 1]"
        and h' = "[PStr ''x'']" and now = "''t1''"]
    by simp
  have sz: "py_get (PDict [(''wallet_address'', PStr ''w''),
                     (''profit_tracking'',
                        PDict [(''total_profit'', PFloat 0), (''sessions'', PInt 0),
                               (''last_profit'', PFloat 0), (''timestamp'', PStr ''t0'')]),
                     (''transaction_count'', PInt 0),
                     (''balance_history_size'', PInt 2),
                     (''status'', PStr ''active''),
                     (''timestamp'', PStr ''t1'')]) ''balance_history_size'' PNone
       = Inr (PInt 2)"
    using st balance_history_write_only
        [where s = "(wallet_init ''w'' ''t0'')\<lparr>balance_history := [PInt 7, PInt 8]\<rparr>"
          and now = "''t1''"
          and r = "PDict [(''wallet_address'', PStr ''w''),
                     (''profit_tracking'',
                        PDict [(''total_profit'', PFloat 0), (''sessions'', PInt 0),
                               (''last_profit'', PFloat 0), (''timestamp'', PStr ''t0'')]),
                     (''transaction_count'', PInt 0),
                     (''balance_history_size'', PInt 2),
                     (''status'', PStr ''active''),
                     (''timestamp'', PStr ''t1'')]"]
    by simp
  from eq st sz show ?thesis by blast
qed

text \<open>
  C10. For every profit-tracking state \<open>track_profit\<close> returns without error, and its
  \<open>average_profit_per_session\<close> is \<open>total_profit / max(1, sessions)\<close>; with a session
  counter of 0 the divisor is 1 and the average is \<open>total_profit\<close> itself.
\<close>

theorem track_profit_average:
  "\<exists>r. track_profit s now = Inr r
      \<and> py_get r ''average_profit_per_session'' PNone
          = Inr (PFloat (total_profit (profit_tracking s)
                          / real_of_int (max 1 (sessions (profit_tracking s)))))
      \<and> (sessions (profit_tracking s) = 0
           \<longrightarrow> py_get r ''average_profit_per_session'' PNone
                 = Inr (PFloat (total_profit (profit_tracking s))))"
proof -
  have nz: "real_of_int (max 1 (sessions (profit_tracking s))) \<noteq> 0"
    by simp
  show ?thesis
    using nz by (simp add: track_profit_def py_truediv_def py_get_def Let_def)
qed

theorem track_profit_average_witness:
  "sessions (profit_tracking (wallet_init ''w'' ''t0'')) = 0
   \<and> (\<exists>r. track_profit (wallet_init ''w'' ''t0'') ''t1'' = Inr r
        \<and> py_get r ''average_profit_per_session'' PNone = Inr (PFloat 0))"
  using track_profit_average [of "wallet_init ''w'' ''t0''" "''t1''"]
  by (simp add: wallet_init_def)

section \<open>The formula library: properties\<close>

text \<open>
  C5. The specification promises that every formula special-cases a zero divisor,
  entanglement and the profit calculation included. On the code
  \<open>principle_polarity(0, 0)\<close> does return the 50/50 split, but \<open>entanglement(0, 0)\<close>
  divides by \<open>max(0, 0)\<close> and \<open>calculate_magick_profit\<close> with an entry price of 0
  divides by it: both raise ZeroDivisionError.
\<close>

theorem entanglement_unguarded_division:
  "principle_polarity 0 0 = Inr (polarity_result (PInt 50) (PInt 50) False)
   \<and> entanglement 0 0 = Inl ZeroDivisionError
   \<and> calculate_magick_profit g 0 exit amount now = (Inl ZeroDivisionError, g)"
  by (simp add: principle_polarity_def entanglement_def calculate_magick_profit_def py_truediv_def)

text \<open>
  C6, as stated: on 19 equal values \<open>flower_of_life_pattern\<close> takes the branch guarded
  by \<open>std > 0\<close>. On the code \<open>range(0, 19 - 19, 19)\<close> is empty: no segment is examined
  and the test \<open>std > 0\<close> is never reached.
\<close>

theorem flower_of_life_19_counterexample:
  "fol_segments (replicate 19 1) = [] \<and> std_guard_skips (replicate 19 1) = 0"
  by (simp add: fol_segments_def std_guard_skips_def segment_starts_def)

text \<open>
  C6, amended: \<open>flower_of_life_pattern\<close> on fewer than 6 values returns the
  insufficient-data sentinel and \<open>principle_rhythm\<close> on fewer than 2 prices returns its
  insufficient-data marker; \<open>flower_of_life_pattern\<close> on 19 equal values returns a
  harmony score of 0 and performs no division by zero.
\<close>

theorem minimum_length_markers:
  "(length data < 6 \<longrightarrow>
      flower_of_life_pattern data = Inr (PDict [(''pattern'', PStr ''insufficient_data'')]))
   \<and> (length prices < 2 \<longrightarrow>
      principle_rhythm prices
        = Inr (PDict [(''principle'', PStr ''rhythm''), (''insufficient_data'', PBool True)]))
   \<and> flower_of_life_pattern (replicate 19 c)
        = Inr (PDict [(''pattern'', PStr ''flower_of_life''),
                      (''harmony_score'', PFloat 0),
                      (''interpretation'', PStr ''Sacred pattern alignment'')])"
proof (intro conjI impI)
  assume "length data < 6"
  then show "flower_of_life_pattern data = Inr (PDict [(''pattern'', PStr ''insufficient_data'')])"
    by (simp add: flower_of_life_pattern_def)
next
  assume "length prices < 2"
  then show "principle_rhythm prices
        = Inr (PDict [(''principle'', PStr ''rhythm''), (''insufficient_data'', PBool True)])"
    by (simp add: principle_rhythm_def)
next
  have none: "fol_segments (replicate 19 c) = []"
    by (simp add: fol_segments_def segment_starts_def)
  show "flower_of_life_pattern (replicate 19 c)
            = Inr (PDict [(''pattern'', PStr ''flower_of_life''),
                          (''harmony_score'', PFloat 0),
                          (''interpretation'', PStr ''Sacred pattern alignment'')])"
    using none by (simp add: flower_of_life_pattern_def py_truediv_def)
qed

theorem minimum_length_markers_witness:
  "length [1, 2, 3 :: real] < 6
   \<and> flower_of_life_pattern [1, 2, 3] = Inr (PDict [(''pattern'', PStr ''insufficient_data'')])
   \<and> length [7 :: real] < 2
   \<and> principle_rhythm [7]
        = Inr (PDict [(''principle'', PStr ''rhythm''), (''insufficient_data'', PBool True)])
   \<and> flower_of_life_pattern (replicate 19 5)
        = Inr (PDict [(''pattern'', PStr ''flower_of_life''),
                      (''harmony_score'', PFloat 0),
                      (''interpretation'', PStr ''Sacred pattern alignment'')])"
  using minimum_length_markers [of "[1, 2, 3]" "[7]" 5] by simp

text \<open>
  C7. For every price above 0, \<open>golden_ratio_levels\<close> returns one level per entry of
  the Fibonacci table, which has 16 entries, and every level is strictly positive.
\<close>

theorem golden_ratio_levels_positive:
  "0 < price \<Longrightarrow>
     length (golden_ratio_levels price) = length FIBONACCI
     \<and> length FIBONACCI = 16
     \<and> (\<forall>level \<in> set (golden_ratio_levels price). 0 < level)"
proof -
  assume p: "0 < price"
  have ne: "PHI \<noteq> 0" using PHI_pos by simp
  have len: "length (golden_ratio_levels price) = length FIBONACCI"
    by (simp add: golden_ratio_levels_def levels_loop_map)
  have tab: "length FIBONACCI = 16"
    by (simp add: FIBONACCI_def)
  have pos: "\<forall>level \<in> set (golden_ratio_levels price). 0 < level"
    using p ne by (simp add: golden_ratio_levels_def levels_loop_map)
  from len tab pos show ?thesis by blast
qed

theorem golden_ratio_levels_positive_witness:
  "(0::real) < 1
   \<and> length (golden_ratio_levels 1) = 16
   \<and> 0 < golden_ratio_levels 1 ! 0
   \<and> 0 < golden_ratio_levels 1 ! 15"
proof -
  have all: "length (golden_ratio_levels 1) = 16
             \<and> (\<forall>level \<in> set (golden_ratio_levels 1). 0 < level)"
    using golden_ratio_levels_positive [of 1] by simp
  then have "golden_ratio_levels 1 ! 0 \<in> set (golden_ratio_levels 1)"
    and "golden_ratio_levels 1 ! 15 \<in> set (golden_ratio_levels 1)"
    by simp_all
  with all show ?thesis by simp
qed

end
